theory Spec2Isabelle
  imports Main
begin

section \<open>JavaScript values\<close>

text \<open>
  The two servers (\<^verbatim>\<open>src/stdio/json-rpc_stdio-server.ts\<close> and
  \<^verbatim>\<open>src/http/json-rpc_http-server.ts\<close>) work on the values that \<^verbatim>\<open>JSON.parse\<close>
  returns. A value of type \<open>'n json\<close> is such a value; \<open>'n\<close> is the runtime's number type
  (an IEEE double), which the model leaves abstract. \<^verbatim>\<open>undefined\<close> is \<open>None\<close> of
  \<open>'n jsval\<close>. An object is the list of its own properties in insertion order.
\<close>

datatype 'n json =
  Null | Bool bool | Num 'n | Str string | Arr "'n json list" | Obj "(string \<times> 'n json) list"

type_synonym 'n jsval = "'n json option"

text \<open>Every exception of the model is an instance of \<^verbatim>\<open>Error\<close> and carries its message.\<close>

datatype js_error = SyntaxError string | TypeError string | Error string

fun message_of :: "js_error \<Rightarrow> string" where
  "message_of (SyntaxError m) = m"
| "message_of (TypeError m) = m"
| "message_of (Error m) = m"

text \<open>
  What the code takes from the runtime and not from this repository: \<^verbatim>\<open>JSON.parse\<close>
  (\<open>Inl\<close> when it throws), the arithmetic and printing of numbers, the messages of the
  \<^verbatim>\<open>TypeError\<close>s the engine raises, what the functions of \<^verbatim>\<open>Object.prototype\<close> do when
  they are called with the given argument and no receiver, and whether
  \<^verbatim>\<open>Object.prototype\<close> has the legacy accessor \<^verbatim>\<open>__proto__\<close> (Deno deletes it).
\<close>

record 'n runtime =
  JSON_parse :: "string \<Rightarrow> js_error + 'n json"
  num_literal :: "int \<Rightarrow> 'n"
  num_NaN :: "'n"
  num_add :: "'n \<Rightarrow> 'n \<Rightarrow> 'n"
  num_falsy :: "'n \<Rightarrow> bool"
  num_finite :: "'n \<Rightarrow> bool"
  num_toString :: "'n \<Rightarrow> string"
  nullish_read_message :: "'n jsval \<Rightarrow> string \<Rightarrow> string"
  not_primitive_message :: "string"
  not_function_message :: "string"
  prototype_call :: "string \<Rightarrow> 'n jsval \<Rightarrow> js_error + 'n jsval"
  legacy_proto :: "bool"

text \<open>Sequencing of computations that may throw: the first exception ends the block.\<close>

definition and_then :: "'e + 'a \<Rightarrow> ('a \<Rightarrow> 'e + 'b) \<Rightarrow> 'e + 'b" where
  "and_then m f = (case m of Inl e \<Rightarrow> Inl e | Inr v \<Rightarrow> f v)"

fun sequence :: "('e + 'a) list \<Rightarrow> 'e + 'a list" where
  "sequence [] = Inr []"
| "sequence (m # ms) = and_then m (\<lambda>v. and_then (sequence ms) (\<lambda>vs. Inr (v # vs)))"

subsection \<open>Property reads\<close>

text \<open>
  \<^verbatim>\<open>v.name\<close> for the names the source reads (\<^verbatim>\<open>jsonrpc\<close>, \<^verbatim>\<open>method\<close>, \<^verbatim>\<open>id\<close>,
  \<^verbatim>\<open>params\<close>, \<^verbatim>\<open>text\<close>). None of them is a member of a built-in prototype, so the read
  finds an own property of an object or \<^verbatim>\<open>undefined\<close>; on \<^verbatim>\<open>null\<close> and \<^verbatim>\<open>undefined\<close>
  it throws.
\<close>

fun get_named :: "'n runtime \<Rightarrow> 'n jsval \<Rightarrow> string \<Rightarrow> js_error + 'n jsval" where
  "get_named rt None k = Inl (TypeError (nullish_read_message rt None k))"
| "get_named rt (Some Null) k = Inl (TypeError (nullish_read_message rt (Some Null) k))"
| "get_named rt (Some (Obj kvs)) k = Inr (map_of kvs k)"
| "get_named rt (Some v) k = Inr None"

fun decimal :: "nat \<Rightarrow> string" where
  "decimal n =
     (if n < 10 then [''0123456789'' ! n]
      else decimal (n div 10) @ [''0123456789'' ! (n mod 10)])"

text \<open>\<^verbatim>\<open>v[i]\<close> for an index \<open>i\<close>: an element of an array, a character of a string, the
  property named by the digits of \<open>i\<close> of an object.\<close>

fun get_index :: "'n runtime \<Rightarrow> 'n jsval \<Rightarrow> nat \<Rightarrow> js_error + 'n jsval" where
  "get_index rt None i = Inl (TypeError (nullish_read_message rt None (decimal i)))"
| "get_index rt (Some Null) i = Inl (TypeError (nullish_read_message rt (Some Null) (decimal i)))"
| "get_index rt (Some (Arr xs)) i = Inr (if i < length xs then Some (xs ! i) else None)"
| "get_index rt (Some (Str s)) i = Inr (if i < length s then Some (Str [s ! i]) else None)"
| "get_index rt (Some (Obj kvs)) i = Inr (map_of kvs (decimal i))"
| "get_index rt (Some v) i = Inr None"

subsection \<open>Conversions and the operator \<^verbatim>\<open>+\<close>\<close>

fun falsy :: "'n runtime \<Rightarrow> 'n jsval \<Rightarrow> bool" where
  "falsy rt None = True"
| "falsy rt (Some Null) = True"
| "falsy rt (Some (Bool b)) = (\<not> b)"
| "falsy rt (Some (Num n)) = num_falsy rt n"
| "falsy rt (Some (Str s)) = (s = [])"
| "falsy rt (Some v) = False"

fun join :: "string list \<Rightarrow> string" where
  "join [] = []"
| "join [s] = s"
| "join (s # t # ts) = s @ '','' @ join (t # ts)"

text \<open>
  \<^verbatim>\<open>ToString\<close> of a parsed value. An array is joined with commas, \<^verbatim>\<open>null\<close> elements
  printing as nothing. An object has no callable \<^verbatim>\<open>toString\<close> of its own: it prints with
  the inherited one, and the conversion throws when an own property hides that one.
\<close>

fun ToString :: "'n runtime \<Rightarrow> 'n json \<Rightarrow> js_error + string" where
  "ToString rt Null = Inr ''null''"
| "ToString rt (Bool b) = Inr (if b then ''true'' else ''false'')"
| "ToString rt (Num n) = Inr (num_toString rt n)"
| "ToString rt (Str s) = Inr s"
| "ToString rt (Arr xs) =
     and_then (sequence (map (\<lambda>x. if x = Null then Inr [] else ToString rt x) xs))
       (\<lambda>parts. Inr (join parts))"
| "ToString rt (Obj kvs) =
     (if ''toString'' \<in> fst ` set kvs then Inl (TypeError (not_primitive_message rt))
      else Inr ''[object Object]'')"

fun ToPrimitive :: "'n runtime \<Rightarrow> 'n jsval \<Rightarrow> js_error + 'n jsval" where
  "ToPrimitive rt (Some (Arr xs)) = and_then (ToString rt (Arr xs)) (\<lambda>s. Inr (Some (Str s)))"
| "ToPrimitive rt (Some (Obj kvs)) = and_then (ToString rt (Obj kvs)) (\<lambda>s. Inr (Some (Str s)))"
| "ToPrimitive rt v = Inr v"

text \<open>The property key of a value is its string; \<^verbatim>\<open>undefined\<close> prints as its name.\<close>

fun ToPropertyKey :: "'n runtime \<Rightarrow> 'n jsval \<Rightarrow> js_error + string" where
  "ToPropertyKey rt None = Inr ''undefined''"
| "ToPropertyKey rt (Some v) = ToString rt v"

fun is_string :: "'n jsval \<Rightarrow> bool" where
  "is_string (Some (Str s)) = True"
| "is_string v = False"

text \<open>\<^verbatim>\<open>ToNumber\<close> of a primitive that is not a string.\<close>

fun ToNumber :: "'n runtime \<Rightarrow> 'n jsval \<Rightarrow> 'n" where
  "ToNumber rt (Some (Num n)) = n"
| "ToNumber rt (Some Null) = num_literal rt 0"
| "ToNumber rt (Some (Bool b)) = num_literal rt (if b then 1 else 0)"
| "ToNumber rt v = num_NaN rt"

text \<open>
  \<^verbatim>\<open>a + b\<close>: both operands are made primitive, the left one first. When one of them
  is a string the result is the concatenation of their strings (for a primitive, the
  string that is also its property key), otherwise the sum of their numbers.
\<close>

definition plus_js :: "'n runtime \<Rightarrow> 'n jsval \<Rightarrow> 'n jsval \<Rightarrow> js_error + 'n jsval" where
  "plus_js rt a b =
     and_then (ToPrimitive rt a) (\<lambda>pa.
     and_then (ToPrimitive rt b) (\<lambda>pb.
       if is_string pa \<or> is_string pb then
         and_then (ToPropertyKey rt pa) (\<lambda>sa.
         and_then (ToPropertyKey rt pb) (\<lambda>sb. Inr (Some (Str (sa @ sb)))))
       else Inr (Some (Num (num_add rt (ToNumber rt pa) (ToNumber rt pb))))))"

section \<open>The method registry\<close>

text \<open>
  \<^verbatim>\<open>echo: (params) => params.text\<close> and \<^verbatim>\<open>add: (params) => params[0] + params[1]\<close>,
  the same in both servers.
\<close>

definition echo :: "'n runtime \<Rightarrow> 'n jsval \<Rightarrow> js_error + 'n jsval" where
  "echo rt params = get_named rt params ''text''"

definition add :: "'n runtime \<Rightarrow> 'n jsval \<Rightarrow> js_error + 'n jsval" where
  "add rt params =
     and_then (get_index rt params 0) (\<lambda>a.
     and_then (get_index rt params 1) (\<lambda>b. plus_js rt a b))"

text \<open>
  What a read \<^verbatim>\<open>methods[key]\<close> can give: nothing, a function, or an object that is not
  a function.
\<close>

datatype 'n property =
  Undefined | Function "'n jsval \<Rightarrow> js_error + 'n jsval" | NonCallable

text \<open>
  \<^verbatim>\<open>methods\<close> is an object literal, so a key that is not its own is looked up in
  \<^verbatim>\<open>Object.prototype\<close>. These are the function-valued properties of
  \<^verbatim>\<open>Object.prototype\<close> in ECMAScript (with Annex B).
\<close>

definition Object_prototype_functions :: "string list" where
  "Object_prototype_functions =
     [''constructor'', ''hasOwnProperty'', ''isPrototypeOf'', ''propertyIsEnumerable'',
      ''toLocaleString'', ''toString'', ''valueOf'',
      ''__defineGetter__'', ''__defineSetter__'', ''__lookupGetter__'', ''__lookupSetter__'']"

definition Object_prototype :: "'n runtime \<Rightarrow> string \<Rightarrow> 'n property" where
  "Object_prototype rt key =
     (if key \<in> set Object_prototype_functions then Function (prototype_call rt key)
      else if key = ''__proto__'' \<and> legacy_proto rt then NonCallable
      else Undefined)"

definition methods :: "'n runtime \<Rightarrow> string \<Rightarrow> 'n property" where
  "methods rt key =
     (if key = ''echo'' then Function (echo rt)
      else if key = ''add'' then Function (add rt)
      else Object_prototype rt key)"

fun call :: "'n runtime \<Rightarrow> 'n property \<Rightarrow> 'n jsval \<Rightarrow> js_error + 'n jsval" where
  "call rt (Function f) arg = f arg"
| "call rt p arg = Inl (TypeError (not_function_message rt))"

section \<open>Responses and their serialization\<close>

record JSONRPCError =
  code :: int
  message :: string

text \<open>
  The interface \<^verbatim>\<open>JSONRPCResponse\<close>: \<^verbatim>\<open>id\<close>, \<^verbatim>\<open>result\<close> and \<^verbatim>\<open>error\<close> are optional.
  A property that is absent and one whose value is \<^verbatim>\<open>undefined\<close> are both \<open>None\<close>:
  the only use of a response is \<^verbatim>\<open>JSON.stringify\<close>, which does not tell them apart.
\<close>

record 'n JSONRPCResponse =
  jsonrpc :: string
  id' :: "'n jsval"
  result :: "'n jsval"
  error :: "JSONRPCError option"

text \<open>
  A JSON text that the servers write is represented by the document it denotes, with
  the properties in the order of the text. \<^verbatim>\<open>JSON.stringify\<close> writes a number that is
  not finite as \<^verbatim>\<open>null\<close> and leaves out a property whose value is \<^verbatim>\<open>undefined\<close>.
\<close>

fun written :: "'n runtime \<Rightarrow> 'n json \<Rightarrow> 'n json" where
  "written rt (Num n) = (if num_finite rt n then Num n else Null)"
| "written rt (Arr xs) = Arr (map (written rt) xs)"
| "written rt (Obj kvs) = Obj (map (\<lambda>(k, v). (k, written rt v)) kvs)"
| "written rt v = v"

definition entry :: "'n runtime \<Rightarrow> string \<Rightarrow> 'n jsval \<Rightarrow> (string \<times> 'n json) list" where
  "entry rt k v = (case v of None \<Rightarrow> [] | Some x \<Rightarrow> [(k, written rt x)])"

definition JSON_stringify :: "'n runtime \<Rightarrow> 'n JSONRPCResponse \<Rightarrow> 'n json" where
  "JSON_stringify rt r =
     Obj ([(''jsonrpc'', Str (jsonrpc r))] @ entry rt ''id'' (id' r) @
          entry rt ''result'' (result r) @
          (case error r of
             None \<Rightarrow> []
           | Some e \<Rightarrow>
               [(''error'', Obj [(''code'', Num (num_literal rt (code e))),
                                 (''message'', Str (message e))])]))"

text \<open>\<^verbatim>\<open>x ?? null\<close>\<close>

fun or_null :: "'n jsval \<Rightarrow> 'n jsval" where
  "or_null None = Some Null"
| "or_null (Some v) = Some v"

section \<open>The stdio server\<close>

subsection \<open>\<^verbatim>\<open>processMessage\<close>\<close>

definition parse_error_response :: "'n JSONRPCResponse" where
  "parse_error_response =
     \<lparr>jsonrpc = ''2.0'', id' = Some Null, result = None,
      error = Some \<lparr>code = - 32700, message = ''Parse error''\<rparr>\<rparr>"

text \<open>
  The body of the outer \<^verbatim>\<open>try\<close> (lines 56 to 88). The reads of \<^verbatim>\<open>request.id\<close> and
  \<^verbatim>\<open>request.params\<close>, which the source repeats in its branches, are made once before
  the lookup: a read of a value that has passed the first read cannot throw. The inner
  \<^verbatim>\<open>try\<close> is the \<open>case\<close> on the outcome of the call.
\<close>

definition processMessage_try :: "'n runtime \<Rightarrow> string \<Rightarrow> js_error + 'n json" where
  "processMessage_try rt line =
     and_then (JSON_parse rt line) (\<lambda>request.
     and_then (get_named rt (Some request) ''jsonrpc'') (\<lambda>version.
     and_then (if version \<noteq> Some (Str ''2.0'') then Inr True
               else and_then (get_named rt (Some request) ''method'') (\<lambda>m. Inr (falsy rt m)))
       (\<lambda>invalid.
     if invalid then Inl (Error ''Invalid Request'')
     else
     and_then (get_named rt (Some request) ''method'') (\<lambda>m.
     and_then (ToPropertyKey rt m) (\<lambda>key.
     and_then (get_named rt (Some request) ''id'') (\<lambda>request_id.
     and_then (get_named rt (Some request) ''params'') (\<lambda>params.
     case methods rt key of
       Undefined \<Rightarrow>
         Inr (JSON_stringify rt
           \<lparr>jsonrpc = ''2.0'', id' = or_null request_id, result = None,
            error = Some \<lparr>code = - 32601, message = ''Method not found''\<rparr>\<rparr>)
     | methodFunc \<Rightarrow>
         (case call rt methodFunc params of
            Inl err \<Rightarrow>
              Inr (JSON_stringify rt
                \<lparr>jsonrpc = ''2.0'', id' = or_null request_id, result = None,
                 error = Some \<lparr>code = - 32000, message = message_of err\<rparr>\<rparr>)
          | Inr res \<Rightarrow>
              Inr (JSON_stringify rt
                \<lparr>jsonrpc = ''2.0'', id' = or_null request_id, result = res,
                 error = None\<rparr>)))))))))"

text \<open>The whole function: the outer \<^verbatim>\<open>catch\<close> (lines 89 to 96) takes every exception.\<close>

definition processMessage :: "'n runtime \<Rightarrow> string \<Rightarrow> js_error + 'n json" where
  "processMessage rt line =
     (case processMessage_try rt line of
        Inr response \<Rightarrow> Inr response
      | Inl err \<Rightarrow> Inr (JSON_stringify rt parse_error_response))"

subsection \<open>\<^verbatim>\<open>readLines\<close>\<close>

text \<open>
  A chunk is the bytes one \<^verbatim>\<open>reader.read\<close> delivered; a byte is a \<open>char\<close>. A decoded
  text is represented by its UTF-8 encoding, so that \<^verbatim>\<open>"\n"\<close> is the byte \<open>0x0A\<close>,
  concatenation is \<open>@\<close> and U+FFFD is the three bytes \<open>EF BF BD\<close>.

  \<^verbatim>\<open>decoder.decode(bytes)\<close> is called without \<^verbatim>\<open>{stream: true}\<close>: every call decodes its
  bytes on their own, as the UTF-8 decoder of the Encoding Standard does. A byte that
  cannot start or continue a sequence and a sequence cut short by the end of the input
  are replaced by U+FFFD, and a byte order mark at the start of the input is dropped.
\<close>

definition replacement :: string where
  "replacement = [CHR 0xEF, CHR 0xBF, CHR 0xBD]"

datatype lead = Ascii | Lead nat nat nat | Invalid

text \<open>A byte read when no sequence is open: \<open>Lead k lo hi\<close> opens a sequence of \<open>k\<close> more
  bytes, the next of them between \<open>lo\<close> and \<open>hi\<close>.\<close>

definition classify :: "char \<Rightarrow> lead" where
  "classify b =
     (let n = (of_char b :: nat) in
      if n \<le> 0x7F then Ascii
      else if 0xC2 \<le> n \<and> n \<le> 0xDF then Lead 1 0x80 0xBF
      else if 0xE0 \<le> n \<and> n \<le> 0xEF then
        Lead 2 (if n = 0xE0 then 0xA0 else 0x80) (if n = 0xED then 0x9F else 0xBF)
      else if 0xF0 \<le> n \<and> n \<le> 0xF4 then
        Lead 3 (if n = 0xF0 then 0x90 else 0x80) (if n = 0xF4 then 0x8F else 0xBF)
      else Invalid)"

text \<open>\<open>utf8_decode needed lo hi seen bytes\<close>: \<open>needed\<close> bytes of the open sequence are
  still to come, \<open>seen\<close> are the bytes of it read so far.\<close>

fun utf8_decode :: "nat \<Rightarrow> nat \<Rightarrow> nat \<Rightarrow> string \<Rightarrow> string \<Rightarrow> string" where
  "utf8_decode needed lo hi seen [] = (if needed = 0 then [] else replacement)"
| "utf8_decode needed lo hi seen (b # bs) =
     (if needed \<noteq> 0 \<and> lo \<le> of_char b \<and> of_char b \<le> hi then
        (if needed = 1 then seen @ [b] @ utf8_decode 0 0x80 0xBF [] bs
         else utf8_decode (needed - 1) 0x80 0xBF (seen @ [b]) bs)
      else
        (if needed \<noteq> 0 then replacement else []) @
        (case classify b of
           Ascii \<Rightarrow> b # utf8_decode 0 0x80 0xBF [] bs
         | Lead k l u \<Rightarrow> utf8_decode k l u [b] bs
         | Invalid \<Rightarrow> replacement @ utf8_decode 0 0x80 0xBF [] bs))"

definition decode :: "string \<Rightarrow> string" where
  "decode bytes =
     utf8_decode 0 0x80 0xBF []
       (if take 3 bytes = [CHR 0xEF, CHR 0xBB, CHR 0xBF] then drop 3 bytes else bytes)"

text \<open>\<^verbatim>\<open>s.split("\n")\<close>: the pieces between the newlines, at least one.\<close>

fun split_lines :: "string \<Rightarrow> string list" where
  "split_lines [] = [[]]"
| "split_lines (c # cs) =
     (if c = CHR 0x0A then [] # split_lines cs
      else (case split_lines cs of [] \<Rightarrow> [[c]] | p # ps \<Rightarrow> (c # p) # ps))"

text \<open>
  The loop of \<^verbatim>\<open>readLines\<close> over the chunks of the successive reads, the read after the
  last chunk returning \<^verbatim>\<open>null\<close>; the result lists the lines in the order they are
  yielded. \<^verbatim>\<open>lines.pop() ?? ""\<close> takes the last piece away.
\<close>

fun readLines_loop :: "string \<Rightarrow> string list \<Rightarrow> string list" where
  "readLines_loop buf [] = (if buf \<noteq> [] then [buf] else [])"
| "readLines_loop buf (chunk # chunks) =
     (let lines = split_lines (buf @ decode chunk) in
      butlast lines @ readLines_loop (if lines = [] then [] else last lines) chunks)"

definition readLines :: "string list \<Rightarrow> string list" where
  "readLines chunks = readLines_loop [] chunks"

subsection \<open>The main loop\<close>



section \<open>The HTTP server\<close>

text \<open>
  Of a request the handler reads the verb and the body; \<^verbatim>\<open>req.text()\<close> is \<open>Inl\<close> when
  reading the body fails.
\<close>

record Request =
  http_method :: string
  body_text :: "js_error + string"

datatype 'n body = Plain string | Document "'n json"

record 'n Response =
  status :: nat
  headers :: "(string \<times> string) list"
  body :: "'n body"

definition json_headers :: "(string \<times> string) list" where
  "json_headers = [(''Content-Type'', ''application/json'')]"

text \<open>
  The body of the \<^verbatim>\<open>try\<close> (lines 39 to 90), written as that of \<^verbatim>\<open>processMessage\<close>. A
  response made without a status has status 200. The template literal of the
  method-not-found message converts \<^verbatim>\<open>rpcReq.method\<close> to the string that is also its
  property key.
\<close>

definition handler_try :: "'n runtime \<Rightarrow> Request \<Rightarrow> js_error + 'n Response" where
  "handler_try rt req =
     and_then (body_text req) (\<lambda>bodyText.
     and_then (JSON_parse rt bodyText) (\<lambda>rpcReq.
     and_then (get_named rt (Some rpcReq) ''jsonrpc'') (\<lambda>version.
     and_then (if version \<noteq> Some (Str ''2.0'') then Inr True
               else and_then (get_named rt (Some rpcReq) ''method'') (\<lambda>m. Inr (falsy rt m)))
       (\<lambda>invalid.
     if invalid then Inl (Error ''Invalid Request: missing jsonrpc or method'')
     else
     and_then (get_named rt (Some rpcReq) ''method'') (\<lambda>m.
     and_then (ToPropertyKey rt m) (\<lambda>key.
     and_then (get_named rt (Some rpcReq) ''id'') (\<lambda>request_id.
     and_then (get_named rt (Some rpcReq) ''params'') (\<lambda>params.
     case methods rt key of
       Undefined \<Rightarrow>
         Inr \<lparr>status = 200, headers = json_headers,
              body = Document (JSON_stringify rt
                \<lparr>jsonrpc = ''2.0'', id' = request_id, result = None,
                 error = Some \<lparr>code = - 32601,
                               message = ''Method not found: '' @ key\<rparr>\<rparr>)\<rparr>
     | methodFunc \<Rightarrow>
         (case call rt methodFunc params of
            Inl err \<Rightarrow>
              Inr \<lparr>status = 200, headers = json_headers,
                   body = Document (JSON_stringify rt
                     \<lparr>jsonrpc = ''2.0'', id' = or_null request_id, result = None,
                      error = Some \<lparr>code = - 32000, message = message_of err\<rparr>\<rparr>)\<rparr>
          | Inr res \<Rightarrow>
              Inr \<lparr>status = 200, headers = json_headers,
                   body = Document (JSON_stringify rt
                     \<lparr>jsonrpc = ''2.0'', id' = or_null request_id, result = res,
                      error = None\<rparr>)\<rparr>)))))))))"

definition handler :: "'n runtime \<Rightarrow> Request \<Rightarrow> js_error + 'n Response" where
  "handler rt req =
     (if http_method req \<noteq> ''POST'' then
        Inr \<lparr>status = 405, headers = [], body = Plain ''Method Not Allowed''\<rparr>
      else
        (case handler_try rt req of
           Inr response \<Rightarrow> Inr response
         | Inl err \<Rightarrow>
             Inr \<lparr>status = 400, headers = json_headers,
                  body = Document (JSON_stringify rt parse_error_response)\<rparr>))"

section \<open>Reading a written response\<close>

text \<open>The value of a property of a written document, and the code and the message of
  its \<^verbatim>\<open>error\<close>.\<close>

definition field :: "'n json \<Rightarrow> string \<Rightarrow> 'n jsval" where
  "field doc k = (case doc of Obj kvs \<Rightarrow> map_of kvs k | _ \<Rightarrow> None)"

definition error_code :: "'n json \<Rightarrow> 'n jsval" where
  "error_code doc = (case field doc ''error'' of None \<Rightarrow> None | Some e \<Rightarrow> field e ''code'')"

definition error_message :: "'n json \<Rightarrow> 'n jsval" where
  "error_message doc =
     (case field doc ''error'' of None \<Rightarrow> None | Some e \<Rightarrow> field e ''message'')"

text \<open>The document of \<^verbatim>\<open>{jsonrpc: "2.0", id: null, error: {code: -32700, message:
  "Parse error"}}\<close>.\<close>

definition parse_error_document :: "'n runtime \<Rightarrow> 'n json" where
  "parse_error_document rt =
     Obj [(''jsonrpc'', Str ''2.0''), (''id'', Null),
          (''error'', Obj [(''code'', Num (num_literal rt (- 32700))),
                           (''message'', Str ''Parse error'')])]"

text \<open>The documents of an error response and of a success response with the given
  \<^verbatim>\<open>id\<close>.\<close>

definition error_document :: "'n runtime \<Rightarrow> 'n jsval \<Rightarrow> int \<Rightarrow> string \<Rightarrow> 'n json" where
  "error_document rt i c m =
     Obj ([(''jsonrpc'', Str ''2.0'')] @ entry rt ''id'' i @
          [(''error'', Obj [(''code'', Num (num_literal rt c)), (''message'', Str m)])])"

definition result_document :: "'n runtime \<Rightarrow> 'n jsval \<Rightarrow> 'n jsval \<Rightarrow> 'n json" where
  "result_document rt i r =
     Obj ([(''jsonrpc'', Str ''2.0'')] @ entry rt ''id'' i @ entry rt ''result'' r)"

text \<open>What dispatch answers once the property \<open>p\<close> is resolved for the method name.\<close>

definition answer :: "'n runtime \<Rightarrow> 'n property \<Rightarrow> 'n jsval \<Rightarrow> 'n jsval \<Rightarrow> 'n json" where
  "answer rt p i params =
     (case call rt p params of
        Inl err \<Rightarrow> error_document rt (or_null i) (- 32000) (message_of err)
      | Inr res \<Rightarrow> result_document rt (or_null i) res)"

text \<open>What the call \<^verbatim>\<open>methods[request.method](request.params)\<close> gives for a payload, when
  the payload parses and the method name converts to a key.\<close>

definition invoked :: "'n runtime \<Rightarrow> string \<Rightarrow> (js_error + 'n jsval) option" where
  "invoked rt payload =
     (case JSON_parse rt payload of
        Inl e \<Rightarrow> None
      | Inr request \<Rightarrow>
          (case get_named rt (Some request) ''method'' of
             Inl e \<Rightarrow> None
           | Inr m \<Rightarrow>
               (case ToPropertyKey rt m of
                  Inl e \<Rightarrow> None
                | Inr key \<Rightarrow>
                    (case get_named rt (Some request) ''params'' of
                       Inl e \<Rightarrow> None
                     | Inr params \<Rightarrow> Some (call rt (methods rt key) params)))))"

text \<open>
  The frames of a whole text as the specification describes them: the pieces between
  the newlines, the piece after the last newline only when it is not empty.
\<close>

definition frames :: "string \<Rightarrow> string list" where
  "frames txt =
     (let pieces = split_lines txt
      in butlast pieces @ (if last pieces = [] then [] else [last pieces]))"

section \<open>A runtime to evaluate the model\<close>

text \<open>
  Numbers are the integers and \<^verbatim>\<open>NaN\<close> (\<open>None\<close>). \<^verbatim>\<open>JSON.parse\<close> is given by a table
  for the payloads below and is used at no other text. The messages are V8's.
\<close>

definition scenario_A :: string where
  \<open>scenario_A = ''{"jsonrpc":"2.0","id":1,"method":"echo","params":{"text":"hi"}}''\<close>

definition scenario_B :: string where
  \<open>scenario_B = ''{"jsonrpc":"2.0","id":2,"method":"add","params":[10,15]}''\<close>

definition scenario_C :: string where
  \<open>scenario_C = ''{"jsonrpc":"2.0","id":3,"method":"nope"}''\<close>

definition scenario_D :: string where
  "scenario_D = ''not json''"

definition wrong_version :: string where
  \<open>wrong_version = ''{"jsonrpc":"1.0","id":5,"method":"echo","params":{"text":"hi"}}''\<close>

definition no_method :: string where
  \<open>no_method = ''{"jsonrpc":"2.0","id":9}''\<close>

definition echo_without_text :: string where
  \<open>echo_without_text = ''{"jsonrpc":"2.0","id":6,"method":"echo","params":{}}''\<close>

definition echo_without_params :: string where
  \<open>echo_without_params = ''{"jsonrpc":"2.0","id":8,"method":"echo"}''\<close>

definition add_strings :: string where
  \<open>add_strings = ''{"jsonrpc":"2.0","id":4,"method":"add","params":["a","b"]}''\<close>

definition call_toString :: string where
  \<open>call_toString = ''{"jsonrpc":"2.0","id":7,"method":"toString"}''\<close>

definition unknown_without_id :: string where
  \<open>unknown_without_id = ''{"jsonrpc":"2.0","method":"nope"}''\<close>

definition echo_without_id :: string where
  \<open>echo_without_id = ''{"jsonrpc":"2.0","method":"echo","params":{"text":"hi"}}''\<close>

definition parsed :: "(string \<times> int option json) list" where
  "parsed =
     [(scenario_A, Obj [(''jsonrpc'', Str ''2.0''), (''id'', Num (Some 1)),
                        (''method'', Str ''echo''), (''params'', Obj [(''text'', Str ''hi'')])]),
      (scenario_B, Obj [(''jsonrpc'', Str ''2.0''), (''id'', Num (Some 2)),
                        (''method'', Str ''add''),
                        (''params'', Arr [Num (Some 10), Num (Some 15)])]),
      (scenario_C, Obj [(''jsonrpc'', Str ''2.0''), (''id'', Num (Some 3)),
                        (''method'', Str ''nope'')]),
      (wrong_version, Obj [(''jsonrpc'', Str ''1.0''), (''id'', Num (Some 5)),
                           (''method'', Str ''echo''),
                           (''params'', Obj [(''text'', Str ''hi'')])]),
      (no_method, Obj [(''jsonrpc'', Str ''2.0''), (''id'', Num (Some 9))]),
      (echo_without_text, Obj [(''jsonrpc'', Str ''2.0''), (''id'', Num (Some 6)),
                               (''method'', Str ''echo''), (''params'', Obj [])]),
      (echo_without_params, Obj [(''jsonrpc'', Str ''2.0''), (''id'', Num (Some 8)),
                                 (''method'', Str ''echo'')]),
      (add_strings, Obj [(''jsonrpc'', Str ''2.0''), (''id'', Num (Some 4)),
                         (''method'', Str ''add''), (''params'', Arr [Str ''a'', Str ''b''])]),
      (call_toString, Obj [(''jsonrpc'', Str ''2.0''), (''id'', Num (Some 7)),
                           (''method'', Str ''toString'')]),
      (unknown_without_id, Obj [(''jsonrpc'', Str ''2.0''), (''method'', Str ''nope'')]),
      (echo_without_id, Obj [(''jsonrpc'', Str ''2.0''), (''method'', Str ''echo''),
                             (''params'', Obj [(''text'', Str ''hi'')])])]"

definition sample_parse :: "string \<Rightarrow> js_error + int option json" where
  "sample_parse s =
     (case map_of parsed s of
        Some v \<Rightarrow> Inr v
      | None \<Rightarrow> Inl (SyntaxError ''Unexpected token''))"

definition sample_toString :: "int option \<Rightarrow> string" where
  "sample_toString n =
     (case n of
        None \<Rightarrow> ''NaN''
      | Some i \<Rightarrow> if i < 0 then ''-'' @ decimal (nat (- i)) else decimal (nat i))"

definition sample_add :: "int option \<Rightarrow> int option \<Rightarrow> int option" where
  "sample_add a b =
     (case a of None \<Rightarrow> None | Some i \<Rightarrow> (case b of None \<Rightarrow> None | Some j \<Rightarrow> Some (i + j)))"

definition sample_read_message :: "int option jsval \<Rightarrow> string \<Rightarrow> string" where
  "sample_read_message v k =
     ''Cannot read properties of '' @ (if v = None then ''undefined'' else ''null'') @
     '' (reading '' @ [CHR 0x27] @ k @ [CHR 0x27] @ '')''"

text \<open>\<^verbatim>\<open>Object.prototype.toString\<close>, \<^verbatim>\<open>Object\<close> and \<^verbatim>\<open>isPrototypeOf\<close> return; the
  other functions need a receiver.\<close>

definition sample_prototype_call :: "string \<Rightarrow> int option jsval \<Rightarrow> js_error + int option jsval" where
  "sample_prototype_call k v =
     (if k = ''toString'' then Inr (Some (Str ''[object Undefined]''))
      else if k = ''constructor'' then
        Inr (case v of None \<Rightarrow> Some (Obj []) | Some Null \<Rightarrow> Some (Obj []) | Some x \<Rightarrow> Some x)
      else if k = ''isPrototypeOf''
              \<and> (case v of Some (Arr xs) \<Rightarrow> False | Some (Obj kvs) \<Rightarrow> False | _ \<Rightarrow> True)
        then Inr (Some (Bool False))
      else Inl (TypeError ''Cannot convert undefined or null to object''))"

definition sample_runtime :: "int option runtime" where
  "sample_runtime =
     \<lparr>JSON_parse = sample_parse,
      num_literal = Some,
      num_NaN = None,
      num_add = sample_add,
      num_falsy = (\<lambda>n. n = None \<or> n = Some 0),
      num_finite = (\<lambda>n. n \<noteq> None),
      num_toString = sample_toString,
      nullish_read_message = sample_read_message,
      not_primitive_message = ''Cannot convert object to primitive value'',
      not_function_message = ''methodFunc is not a function'',
      prototype_call = sample_prototype_call,
      legacy_proto = False\<rparr>"

section \<open>Basic facts\<close>

lemma and_then_Inl: "and_then (Inl e) f = Inl e"
  by (simp add: and_then_def)

lemma and_then_Inr: "and_then (Inr v) f = f v"
  by (simp add: and_then_def)

lemma stringify_parse_error: "JSON_stringify rt parse_error_response = parse_error_document rt"
  by (simp add: JSON_stringify_def parse_error_response_def parse_error_document_def entry_def)


lemma processMessage_caught:
  "processMessage_try rt line = Inl e \<Longrightarrow> processMessage rt line = Inr (parse_error_document rt)"
  by (simp add: processMessage_def stringify_parse_error)

lemma processMessage_returned:
  "processMessage_try rt line = Inr doc \<Longrightarrow> processMessage rt line = Inr doc"
  by (simp add: processMessage_def)

lemma handler_caught:
  "http_method req = ''POST'' \<Longrightarrow> handler_try rt req = Inl e \<Longrightarrow>
   handler rt req =
     Inr \<lparr>status = 400, headers = json_headers, body = Document (parse_error_document rt)\<rparr>"
  by (simp add: handler_def stringify_parse_error)

lemma handler_returned:
  "http_method req = ''POST'' \<Longrightarrow> handler_try rt req = Inr resp \<Longrightarrow> handler rt req = Inr resp"
  by (simp add: handler_def)

lemma processMessage_try_syntax:
  "JSON_parse rt line = Inl e \<Longrightarrow> processMessage_try rt line = Inl e"
  by (simp add: processMessage_try_def and_then_Inl)

lemma handler_try_syntax:
  "body_text req = Inr payload \<Longrightarrow> JSON_parse rt payload = Inl e \<Longrightarrow> handler_try rt req = Inl e"
  by (simp add: handler_try_def and_then_Inl and_then_Inr)

subsection \<open>Written documents\<close>

lemma stringify_error:
  "JSON_stringify rt \<lparr>jsonrpc = ''2.0'', id' = i, result = None,
      error = Some \<lparr>code = c, message = m\<rparr>\<rparr> = error_document rt i c m"
  by (simp add: JSON_stringify_def error_document_def entry_def)

lemma stringify_result:
  "JSON_stringify rt \<lparr>jsonrpc = ''2.0'', id' = i, result = r, error = None\<rparr> =
     result_document rt i r"
  by (simp add: JSON_stringify_def result_document_def)


lemma field_id: "field (JSON_stringify rt r) ''id'' = map_option (written rt) (id' r)"
  by (simp add: field_def JSON_stringify_def entry_def split: option.split)



subsection \<open>The shape of every response\<close>



lemma handler_try_shape:
  assumes "handler_try rt req = Inr resp"
  shows "\<exists>payload. body_text req = Inr payload \<and> status resp = 200 \<and> headers resp = json_headers \<and>
          (\<exists>r. body resp = Document (JSON_stringify rt r) \<and> jsonrpc r = ''2.0'' \<and>
             (result r = None \<or> error r = None) \<and>
             (result r = None \<and> error r = None \<longrightarrow> invoked rt payload = Some (Inr None)))"
proof -
  from assms obtain payload where p: "body_text req = Inr payload"
    by (cases "body_text req") (simp_all add: handler_try_def and_then_def)
  show ?thesis
    using assms p
    unfolding handler_try_def and_then_def invoked_def
    by (auto split: sum.splits property.splits if_splits
        intro!: exI[where x="\<lparr>jsonrpc = ''2.0'', id' = _, result = _, error = _\<rparr>"])
qed


subsection \<open>Dispatch of a valid request\<close>

lemma processMessage_try_dispatch:
  assumes "JSON_parse rt payload = Inr (Obj kvs)"
      and "map_of kvs ''jsonrpc'' = Some (Str ''2.0'')"
      and "map_of kvs ''method'' = Some (Str name)"
      and "name \<noteq> []"
  shows "processMessage_try rt payload =
           Inr (case methods rt name of
                  Undefined \<Rightarrow>
                    error_document rt (or_null (map_of kvs ''id'')) (- 32601) ''Method not found''
                | p \<Rightarrow> answer rt p (map_of kvs ''id'') (map_of kvs ''params''))"
  using assms
  by (simp add: processMessage_try_def and_then_Inr answer_def stringify_error stringify_result
      split: property.split sum.split)

lemma handler_try_dispatch:
  assumes "body_text req = Inr payload"
      and "JSON_parse rt payload = Inr (Obj kvs)"
      and "map_of kvs ''jsonrpc'' = Some (Str ''2.0'')"
      and "map_of kvs ''method'' = Some (Str name)"
      and "name \<noteq> []"
  shows "handler_try rt req =
           Inr \<lparr>status = 200, headers = json_headers,
                body = Document
                  (case methods rt name of
                     Undefined \<Rightarrow>
                       error_document rt (map_of kvs ''id'') (- 32601)
                         (''Method not found: '' @ name)
                   | p \<Rightarrow> answer rt p (map_of kvs ''id'') (map_of kvs ''params''))\<rparr>"
  using assms
  by (simp add: handler_try_def and_then_Inr answer_def stringify_error stringify_result
      split: property.split sum.split)

lemma processMessage_try_invalid:
  assumes "JSON_parse rt payload = Inr request"
      and "get_named rt (Some request) ''jsonrpc'' = Inr version"
      and "get_named rt (Some request) ''method'' = Inr m"
      and "version \<noteq> Some (Str ''2.0'') \<or> falsy rt m"
  shows "processMessage_try rt payload = Inl (Error ''Invalid Request'')"
  using assms
  by (auto simp: processMessage_try_def and_then_Inr)

lemma handler_try_invalid:
  assumes "body_text req = Inr payload"
      and "JSON_parse rt payload = Inr request"
      and "get_named rt (Some request) ''jsonrpc'' = Inr version"
      and "get_named rt (Some request) ''method'' = Inr m"
      and "version \<noteq> Some (Str ''2.0'') \<or> falsy rt m"
  shows "handler_try rt req = Inl (Error ''Invalid Request: missing jsonrpc or method'')"
  using assms
  by (auto simp: handler_try_def and_then_Inr)

section \<open>The scenarios of the specification\<close>

text \<open>Scenarios A to D on the stdio server, and Scenario E, a GET, on the HTTP server.\<close>

lemma scenarios:
  "processMessage sample_runtime scenario_A =
     Inr (Obj [(''jsonrpc'', Str ''2.0''), (''id'', Num (Some 1)), (''result'', Str ''hi'')])"
  "processMessage sample_runtime scenario_B =
     Inr (Obj [(''jsonrpc'', Str ''2.0''), (''id'', Num (Some 2)), (''result'', Num (Some 25))])"
  "processMessage sample_runtime scenario_C =
     Inr (Obj [(''jsonrpc'', Str ''2.0''), (''id'', Num (Some 3)),
               (''error'', Obj [(''code'', Num (Some (- 32601))),
                                (''message'', Str ''Method not found'')])])"
  "processMessage sample_runtime scenario_D =
     Inr (Obj [(''jsonrpc'', Str ''2.0''), (''id'', Null),
               (''error'', Obj [(''code'', Num (Some (- 32700))),
                                (''message'', Str ''Parse error'')])])"
  "handler sample_runtime \<lparr>http_method = ''GET'', body_text = Inr scenario_A\<rparr> =
     Inr \<lparr>status = 405, headers = [], body = Plain ''Method Not Allowed''\<rparr>"
  by code_simp+

section \<open>Payloads that are not JSON\<close>

text \<open>
  C6: for every payload that \<^verbatim>\<open>JSON.parse\<close> rejects, \<^verbatim>\<open>processMessage\<close> returns, and the
  HTTP handler answers a POST with, the error response with code -32700, message
  \<^verbatim>\<open>Parse error\<close> and id \<^verbatim>\<open>null\<close> (the HTTP server with status 400).
\<close>

theorem C6_parse_error:
  assumes "JSON_parse rt payload = Inl e"
  shows "processMessage rt payload = Inr (parse_error_document rt) \<and>
         (\<forall>req. http_method req = ''POST'' \<and> body_text req = Inr payload \<longrightarrow>
            handler rt req =
              Inr \<lparr>status = 400, headers = json_headers,
                   body = Document (parse_error_document rt)\<rparr>)"
  using assms
  by (auto intro: processMessage_caught processMessage_try_syntax handler_caught handler_try_syntax)

text \<open>Scenario D of the specification, and the same payload posted to the HTTP server.\<close>

theorem C6_parse_error_witness:
  "JSON_parse sample_runtime scenario_D = Inl (SyntaxError ''Unexpected token'') \<and>
   processMessage sample_runtime scenario_D =
     Inr (Obj [(''jsonrpc'', Str ''2.0''), (''id'', Null),
               (''error'', Obj [(''code'', Num (Some (- 32700))),
                                (''message'', Str ''Parse error'')])]) \<and>
   handler sample_runtime \<lparr>http_method = ''POST'', body_text = Inr scenario_D\<rparr> =
     Inr \<lparr>status = 400, headers = [(''Content-Type'', ''application/json'')],
          body = Document (Obj [(''jsonrpc'', Str ''2.0''), (''id'', Null),
               (''error'', Obj [(''code'', Num (Some (- 32700))),
                                (''message'', Str ''Parse error'')])])\<rparr>"
proof -
  have bad: "JSON_parse sample_runtime scenario_D = Inl (SyntaxError ''Unexpected token'')"
    by code_simp
  have doc: "parse_error_document sample_runtime =
      Obj [(''jsonrpc'', Str ''2.0''), (''id'', Null),
           (''error'', Obj [(''code'', Num (Some (- 32700))),
                            (''message'', Str ''Parse error'')])]"
    by (simp add: parse_error_document_def sample_runtime_def)
  show ?thesis
    using C6_parse_error [OF bad] bad doc
    by (simp add: json_headers_def)
qed

section \<open>Requests that fail validation\<close>

text \<open>
  C1 (as amended): for every payload that parses and whose \<^verbatim>\<open>jsonrpc\<close> is not
  \<^verbatim>\<open>"2.0"\<close> or whose \<^verbatim>\<open>method\<close> is missing, empty or otherwise falsy, the code throws
  \<^verbatim>\<open>Error("Invalid Request")\<close> inside the outer \<^verbatim>\<open>try\<close>; the outer \<^verbatim>\<open>catch\<close> answers
  with code -32700, message \<^verbatim>\<open>Parse error\<close> and id \<^verbatim>\<open>null\<close>, and the HTTP server with
  status 400. No branch of either server writes the code -32600.
\<close>

theorem C1_invalid_request:
  assumes "JSON_parse rt payload = Inr request"
      and "get_named rt (Some request) ''jsonrpc'' = Inr version"
      and "get_named rt (Some request) ''method'' = Inr m"
      and "version \<noteq> Some (Str ''2.0'') \<or> falsy rt m"
  shows "processMessage_try rt payload = Inl (Error ''Invalid Request'') \<and>
         processMessage rt payload = Inr (parse_error_document rt) \<and>
         (\<forall>req. http_method req = ''POST'' \<and> body_text req = Inr payload \<longrightarrow>
            handler rt req =
              Inr \<lparr>status = 400, headers = json_headers,
                   body = Document (parse_error_document rt)\<rparr>)"
proof -
  have thrown: "processMessage_try rt payload = Inl (Error ''Invalid Request'')"
    using assms by (rule processMessage_try_invalid)
  have "handler rt req =
          Inr \<lparr>status = 400, headers = json_headers, body = Document (parse_error_document rt)\<rparr>"
    if "http_method req = ''POST''" and "body_text req = Inr payload" for req
    using that(1) handler_try_invalid [OF that(2) assms] by (rule handler_caught)
  with thrown processMessage_caught [OF thrown] show ?thesis
    by blast
qed

text \<open>A request with version 1.0, and a request without a method.\<close>

theorem C1_invalid_request_witness:
  "JSON_parse sample_runtime wrong_version =
     Inr (Obj [(''jsonrpc'', Str ''1.0''), (''id'', Num (Some 5)), (''method'', Str ''echo''),
               (''params'', Obj [(''text'', Str ''hi'')])]) \<and>
   processMessage sample_runtime wrong_version = Inr (parse_error_document sample_runtime) \<and>
   handler sample_runtime \<lparr>http_method = ''POST'', body_text = Inr wrong_version\<rparr> =
     Inr \<lparr>status = 400, headers = json_headers,
          body = Document (parse_error_document sample_runtime)\<rparr> \<and>
   JSON_parse sample_runtime no_method =
     Inr (Obj [(''jsonrpc'', Str ''2.0''), (''id'', Num (Some 9))]) \<and>
   processMessage sample_runtime no_method = Inr (parse_error_document sample_runtime)"
proof -
  have p1: "JSON_parse sample_runtime wrong_version =
     Inr (Obj [(''jsonrpc'', Str ''1.0''), (''id'', Num (Some 5)), (''method'', Str ''echo''),
               (''params'', Obj [(''text'', Str ''hi'')])])"
    by code_simp
  have p2: "JSON_parse sample_runtime no_method =
     Inr (Obj [(''jsonrpc'', Str ''2.0''), (''id'', Num (Some 9))])"
    by code_simp
  show ?thesis
    using C1_invalid_request [OF p1, of "Some (Str ''1.0'')" "Some (Str ''echo'')"]
      C1_invalid_request [OF p2, of "Some (Str ''2.0'')" None] p1 p2
    by simp
qed

text \<open>The claim as stated asks for code -32600 here; the response has code -32700.\<close>

theorem C1_counterexample:
  "JSON_parse sample_runtime wrong_version =
     Inr (Obj [(''jsonrpc'', Str ''1.0''), (''id'', Num (Some 5)), (''method'', Str ''echo''),
               (''params'', Obj [(''text'', Str ''hi'')])]) \<and>
   processMessage sample_runtime wrong_version =
     Inr (Obj [(''jsonrpc'', Str ''2.0''), (''id'', Null),
               (''error'', Obj [(''code'', Num (Some (- 32700))),
                                (''message'', Str ''Parse error'')])]) \<and>
   error_code (projr (processMessage sample_runtime wrong_version)) \<noteq> Some (Num (Some (- 32600)))"
  by code_simp

section \<open>One of result and error\<close>





section \<open>A response for every line\<close>

lemma processMessage_try_id:
  assumes "processMessage_try rt line = Inr doc"
      and "JSON_parse rt line = Inr request"
      and "get_named rt (Some request) ''id'' = Inr rid"
  shows "field doc ''id'' = map_option (written rt) (or_null rid)"
  using assms
  unfolding processMessage_try_def and_then_def
  by (auto split: sum.splits property.splits if_splits simp: field_id)




section \<open>Method lookup\<close>


lemma methods_inherited:
  assumes "name \<in> set Object_prototype_functions"
  shows "methods rt name = Function (prototype_call rt name)"
    and "name \<noteq> ''echo''" and "name \<noteq> ''add''"
  using assms by (auto simp: methods_def Object_prototype_def Object_prototype_functions_def)





section \<open>Names inherited from \<^verbatim>\<open>Object.prototype\<close>\<close>

text \<open>
  C9: \<^verbatim>\<open>methods[request.method]\<close> is a plain property read, so a method name that is
  not \<^verbatim>\<open>echo\<close> or \<^verbatim>\<open>add\<close> but names a function of \<^verbatim>\<open>Object.prototype\<close> (among them
  \<^verbatim>\<open>toString\<close>, \<^verbatim>\<open>constructor\<close> and \<^verbatim>\<open>hasOwnProperty\<close>) resolves to that function. Both
  servers call it with the params of the request and answer with its result, or with
  code -32000 when it throws, and not with code -32601.
\<close>

theorem C9_inherited_methods:
  assumes "JSON_parse rt payload = Inr (Obj kvs)"
      and "map_of kvs ''jsonrpc'' = Some (Str ''2.0'')"
      and "map_of kvs ''method'' = Some (Str name)"
      and "name \<in> set Object_prototype_functions"
  shows "name \<noteq> ''echo'' \<and> name \<noteq> ''add'' \<and>
         methods rt name = Function (prototype_call rt name) \<and>
         processMessage rt payload =
           Inr (case prototype_call rt name (map_of kvs ''params'') of
                  Inl err \<Rightarrow>
                    error_document rt (or_null (map_of kvs ''id'')) (- 32000) (message_of err)
                | Inr res \<Rightarrow> result_document rt (or_null (map_of kvs ''id'')) res) \<and>
         (\<forall>req. http_method req = ''POST'' \<and> body_text req = Inr payload \<longrightarrow>
            handler rt req =
              Inr \<lparr>status = 200, headers = json_headers,
                   body = Document
                     (case prototype_call rt name (map_of kvs ''params'') of
                        Inl err \<Rightarrow>
                          error_document rt (or_null (map_of kvs ''id'')) (- 32000)
                            (message_of err)
                      | Inr res \<Rightarrow> result_document rt (or_null (map_of kvs ''id'')) res)\<rparr>)"
proof -
  note inherited = methods_inherited(1) [OF assms(4), of rt] methods_inherited(2,3) [OF assms(4)]
  have nonempty: "name \<noteq> []"
    using assms(4) by (auto simp: Object_prototype_functions_def)
  have "processMessage_try rt payload =
      Inr (answer rt (Function (prototype_call rt name)) (map_of kvs ''id'') (map_of kvs ''params''))"
    using processMessage_try_dispatch [OF assms(1-3) nonempty] inherited(1) by simp
  then have stdio: "processMessage rt payload =
      Inr (answer rt (Function (prototype_call rt name)) (map_of kvs ''id'') (map_of kvs ''params''))"
    by (rule processMessage_returned)
  have "handler rt req =
      Inr \<lparr>status = 200, headers = json_headers,
           body = Document
             (answer rt (Function (prototype_call rt name)) (map_of kvs ''id'')
                (map_of kvs ''params''))\<rparr>"
    if "http_method req = ''POST''" and "body_text req = Inr payload" for req
  proof -
    have "handler_try rt req =
      Inr \<lparr>status = 200, headers = json_headers,
           body = Document
             (answer rt (Function (prototype_call rt name)) (map_of kvs ''id'')
                (map_of kvs ''params''))\<rparr>"
      using handler_try_dispatch [OF that(2) assms(1-3) nonempty] inherited(1) by simp
    with that(1) show ?thesis
      by (rule handler_returned)
  qed
  with stdio inherited show ?thesis
    by (simp add: answer_def)
qed

text \<open>A request for \<^verbatim>\<open>toString\<close>: the answer is the result of
  \<^verbatim>\<open>Object.prototype.toString\<close> called without a receiver.\<close>

theorem C9_inherited_methods_witness:
  "JSON_parse sample_runtime call_toString =
     Inr (Obj [(''jsonrpc'', Str ''2.0''), (''id'', Num (Some 7)), (''method'', Str ''toString'')]) \<and>
   ''toString'' \<in> set Object_prototype_functions \<and>
   ''constructor'' \<in> set Object_prototype_functions \<and>
   ''hasOwnProperty'' \<in> set Object_prototype_functions \<and>
   processMessage sample_runtime call_toString =
     Inr (Obj [(''jsonrpc'', Str ''2.0''), (''id'', Num (Some 7)),
               (''result'', Str ''[object Undefined]'')]) \<and>
   handler sample_runtime \<lparr>http_method = ''POST'', body_text = Inr call_toString\<rparr> =
     Inr \<lparr>status = 200, headers = json_headers,
          body = Document
            (Obj [(''jsonrpc'', Str ''2.0''), (''id'', Num (Some 7)),
                  (''result'', Str ''[object Undefined]'')])\<rparr>"
proof -
  have p: "JSON_parse sample_runtime call_toString =
     Inr (Obj [(''jsonrpc'', Str ''2.0''), (''id'', Num (Some 7)), (''method'', Str ''toString'')])"
    by code_simp
  have n: "''toString'' \<in> set Object_prototype_functions"
    "''constructor'' \<in> set Object_prototype_functions"
    "''hasOwnProperty'' \<in> set Object_prototype_functions"
    by (simp_all add: Object_prototype_functions_def)
  have c: "prototype_call sample_runtime ''toString'' None = Inr (Some (Str ''[object Undefined]''))"
    by (simp add: sample_runtime_def sample_prototype_call_def)
  show ?thesis
    using C9_inherited_methods [OF p, of "''toString''"] p n c
    by (simp add: result_document_def entry_def sample_runtime_def)
qed

section \<open>Handler failures\<close>







section \<open>The id of a response to a request without id\<close>

lemma field_id_error_document:
  "field (error_document rt i c m) ''id'' = map_option (written rt) i"
  by (simp add: field_def error_document_def entry_def split: option.split)

lemma field_id_result_document:
  "field (result_document rt i r) ''id'' = map_option (written rt) i"
  by (simp add: field_def result_document_def entry_def split: option.split)

lemma handler_try_id:
  assumes "handler_try rt req = Inr resp"
      and "body_text req = Inr payload"
      and "JSON_parse rt payload = Inr request"
      and "get_named rt (Some request) ''id'' = Inr rid"
  shows "\<exists>doc. body resp = Document doc \<and> status resp = 200 \<and>
           (field doc ''id'' = map_option (written rt) (or_null rid) \<or>
            (\<exists>key. methods rt key = Undefined \<and>
               doc = error_document rt rid (- 32601) (''Method not found: '' @ key)))"
  using assms
  unfolding handler_try_def and_then_def
  by (auto split: sum.splits property.splits if_splits
      simp: stringify_error stringify_result field_id_error_document field_id_result_document)

text \<open>
  C10: for a request without \<^verbatim>\<open>id\<close>, every response of \<^verbatim>\<open>processMessage\<close> has the id
  \<^verbatim>\<open>null\<close>, and so has every response of the HTTP handler but the one of its
  method-not-found branch. That branch writes \<^verbatim>\<open>id: rpcReq.id\<close> with no \<^verbatim>\<open>?? null\<close>:
  for a valid request without id whose method resolves to nothing, the written -32601
  response has no \<^verbatim>\<open>id\<close> property at all.
\<close>

theorem C10_missing_id:
  assumes "JSON_parse rt payload = Inr request"
      and "get_named rt (Some request) ''id'' = Inr None"
  shows "(\<exists>doc. processMessage rt payload = Inr doc \<and> field doc ''id'' = Some Null) \<and>
         (\<forall>req. http_method req = ''POST'' \<and> body_text req = Inr payload \<longrightarrow>
            (\<exists>resp doc. handler rt req = Inr resp \<and> body resp = Document doc \<and>
               (field doc ''id'' = Some Null \<or>
                (\<exists>key. methods rt key = Undefined \<and> status resp = 200 \<and>
                   doc = Obj [(''jsonrpc'', Str ''2.0''),
                              (''error'', Obj [(''code'', Num (num_literal rt (- 32601))),
                                 (''message'', Str (''Method not found: '' @ key))])])))) \<and>
         (\<forall>req kvs name. http_method req = ''POST'' \<and> body_text req = Inr payload \<and>
              request = Obj kvs \<and> map_of kvs ''jsonrpc'' = Some (Str ''2.0'') \<and>
              map_of kvs ''method'' = Some (Str name) \<and> name \<noteq> [] \<and>
              methods rt name = Undefined \<longrightarrow>
            handler rt req =
              Inr \<lparr>status = 200, headers = json_headers,
                   body = Document
                     (Obj [(''jsonrpc'', Str ''2.0''),
                           (''error'', Obj [(''code'', Num (num_literal rt (- 32601))),
                              (''message'', Str (''Method not found: '' @ name))])])\<rparr>)"
proof -
  have stdio: "\<exists>doc. processMessage rt payload = Inr doc \<and> field doc ''id'' = Some Null"
  proof (cases "processMessage_try rt payload")
    case (Inl e)
    then have "processMessage rt payload = Inr (JSON_stringify rt parse_error_response)"
      by (simp add: processMessage_def)
    then show ?thesis
      by (simp add: field_id parse_error_response_def)
  next
    case (Inr doc)
    have "processMessage rt payload = Inr doc"
      using Inr by (rule processMessage_returned)
    moreover have "field doc ''id'' = Some Null"
      using processMessage_try_id [OF Inr assms] by simp
    ultimately show ?thesis
      by blast
  qed
  have http: "\<exists>resp doc. handler rt req = Inr resp \<and> body resp = Document doc \<and>
         (field doc ''id'' = Some Null \<or>
          (\<exists>key. methods rt key = Undefined \<and> status resp = 200 \<and>
             doc = Obj [(''jsonrpc'', Str ''2.0''),
                        (''error'', Obj [(''code'', Num (num_literal rt (- 32601))),
                           (''message'', Str (''Method not found: '' @ key))])]))"
    if post: "http_method req = ''POST''" and posted: "body_text req = Inr payload" for req
  proof (cases "handler_try rt req")
    case (Inl e)
    have "handler rt req =
        Inr \<lparr>status = 400, headers = json_headers,
             body = Document (JSON_stringify rt parse_error_response)\<rparr>"
      using post Inl by (simp add: handler_def)
    then show ?thesis
      by (simp add: field_id parse_error_response_def)
  next
    case (Inr resp)
    have "handler rt req = Inr resp"
      using post Inr by (rule handler_returned)
    then show ?thesis
      using handler_try_id [OF Inr posted assms]
      by (auto simp: error_document_def entry_def)
  qed
  have unknown: "handler rt req =
        Inr \<lparr>status = 200, headers = json_headers,
             body = Document
               (Obj [(''jsonrpc'', Str ''2.0''),
                     (''error'', Obj [(''code'', Num (num_literal rt (- 32601))),
                        (''message'', Str (''Method not found: '' @ name))])])\<rparr>"
    if "http_method req = ''POST''" and "body_text req = Inr payload" and "request = Obj kvs"
      and "map_of kvs ''jsonrpc'' = Some (Str ''2.0'')"
      and "map_of kvs ''method'' = Some (Str name)" and "name \<noteq> []"
      and "methods rt name = Undefined" for req kvs name
  proof -
    have "map_of kvs ''id'' = None"
      using assms(2) that(3) by simp
    then have "handler_try rt req =
        Inr \<lparr>status = 200, headers = json_headers,
             body = Document
               (Obj [(''jsonrpc'', Str ''2.0''),
                     (''error'', Obj [(''code'', Num (num_literal rt (- 32601))),
                        (''message'', Str (''Method not found: '' @ name))])])\<rparr>"
      using handler_try_dispatch [OF that(2) assms(1) [unfolded that(3)] that(4-6)] that(7)
      by (simp add: error_document_def entry_def)
    with that(1) show ?thesis
      by (rule handler_returned)
  qed
  from stdio http unknown show ?thesis
    by blast
qed

text \<open>An unknown method and \<^verbatim>\<open>echo\<close>, both without id, on both servers.\<close>

theorem C10_missing_id_witness:
  "JSON_parse sample_runtime unknown_without_id =
     Inr (Obj [(''jsonrpc'', Str ''2.0''), (''method'', Str ''nope'')]) \<and>
   methods sample_runtime ''nope'' = Undefined \<and>
   processMessage sample_runtime unknown_without_id =
     Inr (Obj [(''jsonrpc'', Str ''2.0''), (''id'', Null),
               (''error'', Obj [(''code'', Num (Some (- 32601))),
                                (''message'', Str ''Method not found'')])]) \<and>
   handler sample_runtime \<lparr>http_method = ''POST'', body_text = Inr unknown_without_id\<rparr> =
     Inr \<lparr>status = 200, headers = json_headers,
          body = Document
            (Obj [(''jsonrpc'', Str ''2.0''),
                  (''error'', Obj [(''code'', Num (Some (- 32601))),
                                   (''message'', Str ''Method not found: nope'')])])\<rparr> \<and>
   handler sample_runtime \<lparr>http_method = ''POST'', body_text = Inr echo_without_id\<rparr> =
     Inr \<lparr>status = 200, headers = json_headers,
          body = Document
            (Obj [(''jsonrpc'', Str ''2.0''), (''id'', Null), (''result'', Str ''hi'')])\<rparr>"
proof -
  have p: "JSON_parse sample_runtime unknown_without_id =
     Inr (Obj [(''jsonrpc'', Str ''2.0''), (''method'', Str ''nope'')])"
    by code_simp
  have m: "methods sample_runtime ''nope'' = Undefined"
    by (simp add: methods_def Object_prototype_def Object_prototype_functions_def
        sample_runtime_def)
  have s: "processMessage sample_runtime unknown_without_id =
     Inr (Obj [(''jsonrpc'', Str ''2.0''), (''id'', Null),
               (''error'', Obj [(''code'', Num (Some (- 32601))),
                                (''message'', Str ''Method not found'')])])"
    by code_simp
  have e: "handler sample_runtime \<lparr>http_method = ''POST'', body_text = Inr echo_without_id\<rparr> =
     Inr \<lparr>status = 200, headers = json_headers,
          body = Document
            (Obj [(''jsonrpc'', Str ''2.0''), (''id'', Null), (''result'', Str ''hi'')])\<rparr>"
    by code_simp
  have "handler sample_runtime \<lparr>http_method = ''POST'', body_text = Inr unknown_without_id\<rparr> =
     Inr \<lparr>status = 200, headers = json_headers,
          body = Document
            (Obj [(''jsonrpc'', Str ''2.0''),
                  (''error'', Obj [(''code'', Num (num_literal sample_runtime (- 32601))),
                                   (''message'', Str (''Method not found: '' @ ''nope''))])])\<rparr>"
    using C10_missing_id [OF p] m by simp
  then show ?thesis
    using p m s e by (simp add: sample_runtime_def)
qed

section \<open>The status of an HTTP response\<close>

lemma handler_try_unreadable:
  "body_text req = Inl e \<Longrightarrow> handler_try rt req = Inl e"
  by (simp add: handler_try_def and_then_Inl)

lemma handler_try_status:
  "handler_try rt req = Inr resp \<Longrightarrow> status resp = 200"
  using handler_try_shape [of rt req resp] by blast

text \<open>
  C4 (as amended): the HTTP handler returns status 405 for every request whose verb is
  not POST, whatever the body. For a POST it returns status 400 with the -32700 body
  whenever the \<^verbatim>\<open>try\<close> block throws, and status 200 whenever the block returns. The
  block throws when the body cannot be read, when \<^verbatim>\<open>JSON.parse\<close> rejects it, and
  when the request fails validation (the \<^verbatim>\<open>Invalid Request\<close> error is thrown inside the
  same \<^verbatim>\<open>try\<close>); it returns for every valid request, so method not found (-32601),
  handler failure (-32000) and success have status 200.
\<close>

theorem C4_http_status:
  "(http_method req \<noteq> ''POST'' \<longrightarrow>
      handler rt req =
        Inr \<lparr>status = 405, headers = [], body = Plain ''Method Not Allowed''\<rparr>) \<and>
   (http_method req = ''POST'' \<longrightarrow>
      (\<forall>e. handler_try rt req = Inl e \<longrightarrow>
         handler rt req =
           Inr \<lparr>status = 400, headers = json_headers,
                body = Document (parse_error_document rt)\<rparr>) \<and>
      (\<forall>resp. handler_try rt req = Inr resp \<longrightarrow>
         handler rt req = Inr resp \<and> status resp = 200)) \<and>
   (\<forall>e. body_text req = Inl e \<longrightarrow> handler_try rt req = Inl e) \<and>
   (\<forall>payload e. body_text req = Inr payload \<and> JSON_parse rt payload = Inl e \<longrightarrow>
      handler_try rt req = Inl e) \<and>
   (\<forall>payload request version m.
      body_text req = Inr payload \<and> JSON_parse rt payload = Inr request \<and>
      get_named rt (Some request) ''jsonrpc'' = Inr version \<and>
      get_named rt (Some request) ''method'' = Inr m \<and>
      (version \<noteq> Some (Str ''2.0'') \<or> falsy rt m) \<longrightarrow>
      handler_try rt req = Inl (Error ''Invalid Request: missing jsonrpc or method'')) \<and>
   (\<forall>payload kvs name.
      body_text req = Inr payload \<and> JSON_parse rt payload = Inr (Obj kvs) \<and>
      map_of kvs ''jsonrpc'' = Some (Str ''2.0'') \<and>
      map_of kvs ''method'' = Some (Str name) \<and> name \<noteq> [] \<longrightarrow>
      (\<exists>resp. handler_try rt req = Inr resp))"
proof -
  have not_post: "handler rt req =
      Inr \<lparr>status = 405, headers = [], body = Plain ''Method Not Allowed''\<rparr>"
    if "http_method req \<noteq> ''POST''"
    using that by (simp add: handler_def)
  have thrown: "handler rt req =
      Inr \<lparr>status = 400, headers = json_headers, body = Document (parse_error_document rt)\<rparr>"
    if "http_method req = ''POST''" and "handler_try rt req = Inl e" for e
    using that by (rule handler_caught)
  have returned: "handler rt req = Inr resp \<and> status resp = 200"
    if "http_method req = ''POST''" and "handler_try rt req = Inr resp" for resp
    using handler_returned [OF that] handler_try_status [OF that(2)] by simp
  have invalid: "handler_try rt req = Inl (Error ''Invalid Request: missing jsonrpc or method'')"
    if "body_text req = Inr payload" and "JSON_parse rt payload = Inr request"
      and "get_named rt (Some request) ''jsonrpc'' = Inr version"
      and "get_named rt (Some request) ''method'' = Inr m"
      and "version \<noteq> Some (Str ''2.0'') \<or> falsy rt m" for payload request version m
    using that by (rule handler_try_invalid)
  have valid: "\<exists>resp. handler_try rt req = Inr resp"
    if "body_text req = Inr payload" and "JSON_parse rt payload = Inr (Obj kvs)"
      and "map_of kvs ''jsonrpc'' = Some (Str ''2.0'')"
      and "map_of kvs ''method'' = Some (Str name)" and "name \<noteq> []" for payload kvs name
    using handler_try_dispatch [OF that] by simp
  from not_post thrown returned invalid valid handler_try_unreadable [of req _ rt]
    handler_try_syntax [of req _ rt]
  show ?thesis
    by blast
qed

text \<open>A GET, a POST of a request with the wrong version, and a POST of Scenario C.\<close>

theorem C4_http_status_witness:
  "handler sample_runtime \<lparr>http_method = ''GET'', body_text = Inr scenario_A\<rparr> =
     Inr \<lparr>status = 405, headers = [], body = Plain ''Method Not Allowed''\<rparr> \<and>
   handler_try sample_runtime \<lparr>http_method = ''POST'', body_text = Inr wrong_version\<rparr> =
     Inl (Error ''Invalid Request: missing jsonrpc or method'') \<and>
   handler sample_runtime \<lparr>http_method = ''POST'', body_text = Inr wrong_version\<rparr> =
     Inr \<lparr>status = 400, headers = json_headers,
          body = Document (parse_error_document sample_runtime)\<rparr> \<and>
   map_sum message_of status
     (handler sample_runtime \<lparr>http_method = ''POST'', body_text = Inr scenario_C\<rparr>) = Inr 200"
proof -
  have a: "handler_try sample_runtime \<lparr>http_method = ''POST'', body_text = Inr wrong_version\<rparr> =
     Inl (Error ''Invalid Request: missing jsonrpc or method'')"
    by code_simp
  have b: "map_sum message_of status
     (handler sample_runtime \<lparr>http_method = ''POST'', body_text = Inr scenario_C\<rparr>) = Inr 200"
    by code_simp
  show ?thesis
    using C4_http_status [of "\<lparr>http_method = ''GET'', body_text = Inr scenario_A\<rparr>" sample_runtime]
      C4_http_status [of "\<lparr>http_method = ''POST'', body_text = Inr wrong_version\<rparr>" sample_runtime]
      a b
    by simp
qed

text \<open>The claim as stated asks for status 200 when the request is invalid; the body
  parses, the request has the wrong version, and the status is 400.\<close>

theorem C4_counterexample:
  "JSON_parse sample_runtime wrong_version =
     Inr (Obj [(''jsonrpc'', Str ''1.0''), (''id'', Num (Some 5)), (''method'', Str ''echo''),
               (''params'', Obj [(''text'', Str ''hi'')])]) \<and>
   handler sample_runtime \<lparr>http_method = ''POST'', body_text = Inr wrong_version\<rparr> =
     Inr \<lparr>status = 400, headers = json_headers,
          body = Document
            (Obj [(''jsonrpc'', Str ''2.0''), (''id'', Null),
                  (''error'', Obj [(''code'', Num (Some (- 32700))),
                                   (''message'', Str ''Parse error'')])])\<rparr> \<and>
   map_sum message_of status
     (handler sample_runtime \<lparr>http_method = ''POST'', body_text = Inr wrong_version\<rparr>) \<noteq> Inr 200"
  by code_simp

section \<open>Framing\<close>

lemma split_lines_nonempty: "split_lines s \<noteq> []"
  by (induction s) (auto split: list.splits)

lemma split_lines_plain: "CHR 0x0A \<notin> set s \<Longrightarrow> split_lines s = [s]"
  by (induction s) auto

lemma last_split_lines_plain: "CHR 0x0A \<notin> set (last (split_lines s))"
  by (induction s) (auto split: list.splits simp: split_lines_nonempty)

lemma split_lines_append:
  "split_lines (t @ r) = butlast (split_lines t) @ split_lines (last (split_lines t) @ r)"
proof (induction t)
  case Nil
  show ?case by simp
next
  case (Cons c cs)
  obtain p ps where s: "split_lines cs = p # ps"
    using split_lines_nonempty [of cs] by (cases "split_lines cs") auto
  show ?case
  proof (cases "c = CHR 0x0A")
    case True
    then show ?thesis
      using Cons s by simp
  next
    case False
    show ?thesis
    proof (cases ps)
      case Nil
      with False Cons s show ?thesis by simp
    next
      case (Cons q qs)
      with False Cons.IH s show ?thesis by simp
    qed
  qed
qed

lemma frames_append:
  "frames (t @ r) = butlast (split_lines t) @ frames (last (split_lines t) @ r)"
proof -
  have "split_lines (last (split_lines t) @ r) \<noteq> []"
    by (rule split_lines_nonempty)
  then show ?thesis
    unfolding frames_def Let_def split_lines_append [of t r]
    by (simp add: butlast_append)
qed

lemma readLines_loop_frames:
  "CHR 0x0A \<notin> set buf \<Longrightarrow>
   readLines_loop buf chunks = frames (buf @ concat (map decode chunks))"
proof (induction chunks arbitrary: buf)
  case Nil
  then show ?case
    by (simp add: frames_def split_lines_plain)
next
  case (Cons chunk chunks)
  let ?lines = "split_lines (buf @ decode chunk)"
  have "readLines_loop buf (chunk # chunks) = butlast ?lines @ readLines_loop (last ?lines) chunks"
    by (simp add: Let_def split_lines_nonempty)
  also have "readLines_loop (last ?lines) chunks =
      frames (last ?lines @ concat (map decode chunks))"
    by (rule Cons.IH) (rule last_split_lines_plain)
  also have "butlast ?lines @ frames (last ?lines @ concat (map decode chunks)) =
      frames ((buf @ decode chunk) @ concat (map decode chunks))"
    by (rule frames_append [symmetric])
  finally show ?case
    by simp
qed

text \<open>The lines yielded are the frames of the chunks' decoded texts put together.\<close>

lemma readLines_frames: "readLines chunks = frames (concat (map decode chunks))"
  using readLines_loop_frames [of "[]" chunks] by (simp add: readLines_def)

lemma utf8_decode_ascii:
  "\<forall>b \<in> set bs. (of_char b :: nat) \<le> 0x7F \<Longrightarrow> utf8_decode 0 0x80 0xBF [] bs = bs"
  by (induction bs) (simp_all add: classify_def)

lemma decode_ascii:
  assumes "\<forall>b \<in> set bs. (of_char b :: nat) \<le> 0x7F"
  shows "decode bs = bs"
proof -
  have "take 3 bs \<noteq> [CHR 0xEF, CHR 0xBB, CHR 0xBF]"
  proof
    assume "take 3 bs = [CHR 0xEF, CHR 0xBB, CHR 0xBF]"
    then have "CHR 0xEF \<in> set (take 3 bs)" by simp
    then have "CHR 0xEF \<in> set bs" by (rule in_set_takeD)
    with assms have "(of_char (CHR 0xEF) :: nat) \<le> 0x7F" by blast
    then show False by simp
  qed
  with assms show ?thesis
    by (simp add: decode_def utf8_decode_ascii)
qed

text \<open>On input that is ASCII only, every way of cutting it into chunks gives the frames of
  the whole decoded text.\<close>

lemma readLines_ascii:
  assumes "\<forall>chunk \<in> set chunks. \<forall>b \<in> set chunk. (of_char b :: nat) \<le> 0x7F"
  shows "readLines chunks = frames (decode (concat chunks))"
proof -
  have "map decode chunks = chunks"
    using assms by (simp add: decode_ascii map_idI)
  moreover have "decode (concat chunks) = concat chunks"
    using assms by (intro decode_ascii) auto
  ultimately show ?thesis
    by (simp add: readLines_frames)
qed

text \<open>
  C2: the lines \<^verbatim>\<open>readLines\<close> yields should be the frames of the whole decoded input,
  however the input is cut into chunks. The code decodes every chunk on its own, so a
  character whose bytes fall into two chunks is decoded as two U+FFFD. Here the input
  is \<^verbatim>\<open>C3 A9 0A\<close>, an e with acute accent and a newline: read in one chunk the line is
  \<^verbatim>\<open>C3 A9\<close>, as are the frames of the whole text; read as \<^verbatim>\<open>C3\<close> and then \<^verbatim>\<open>A9 0A\<close>
  the line is \<^verbatim>\<open>EF BF BD EF BF BD\<close>.
\<close>

theorem C2_character_across_chunks:
  "readLines [[CHR 0xC3], [CHR 0xA9, CHR 0x0A]] =
     [[CHR 0xEF, CHR 0xBF, CHR 0xBD, CHR 0xEF, CHR 0xBF, CHR 0xBD]] \<and>
   readLines [[CHR 0xC3, CHR 0xA9, CHR 0x0A]] = [[CHR 0xC3, CHR 0xA9]] \<and>
   frames (decode (concat [[CHR 0xC3], [CHR 0xA9, CHR 0x0A]])) = [[CHR 0xC3, CHR 0xA9]]"
  by code_simp

end
